theory Spec2Isabelle
  imports Complex_Main "HOL-Library.Word" "HOL-Library.Signed_Division" "HOL-Library.Log_Nat"
begin

unbundle bit_operations_syntax

section \<open>Data model (motor.h)\<close>

text \<open>
  The firmware computes with \<open>float\<close> and \<open>double\<close>.  A floating-point value is
  modelled by the real number it denotes.  The quotient and the product that
  \<open>driveCoilsAngle\<close> rounds to a whole microstep are rounded to single precision as the
  processor rounds them (\<open>float32\<close> below), because that rounding decides the microstep
  at a half-way point.  Every other floating-point operation is modelled by the exact
  operation on reals, and a statement about its result is to be read up to the
  rounding of floating-point arithmetic; where such a result is converted to an
  integer, the concrete evaluations in this theory stay away from the boundaries at
  which that rounding could change the integer.
\<close>

datatype COIL_STATE = COIL_NOT_SET | FORWARD | BACKWARD | BRAKE | COAST

datatype MOTOR_STATE =
  MOTOR_NOT_SET | ENABLED | DISABLED | FORCED_ENABLED | FORCED_DISABLED | OVERTEMP

text \<open>\<open>typedef enum { NEGATIVE = -1, POSITIVE = 1 } STEP_DIR;\<close>\<close>

datatype STEP_DIR = NEGATIVE | POSITIVE

fun STEP_DIR_value :: "STEP_DIR \<Rightarrow> int" where
  "STEP_DIR_value NEGATIVE = - 1"
| "STEP_DIR_value POSITIVE = 1"

text \<open>
  The conversion of the integer \<open>- 1\<close> or \<open>1\<close> that \<open>setReversed\<close> assigns to the
  field \<open>reversed\<close>.
\<close>

definition STEP_DIR_of :: "int \<Rightarrow> STEP_DIR" where
  "STEP_DIR_of i = (if i = - 1 then NEGATIVE else POSITIVE)"

text \<open>The two H-bridge channels and their output pins.\<close>

datatype coil = CoilA | CoilB

datatype pin = COIL_A_DIR_1_PIN | COIL_A_DIR_2_PIN | COIL_B_DIR_1_PIN | COIL_B_DIR_2_PIN

datatype level = LOW | HIGH

text \<open>
  The hardware primitives \<open>analogSet\<close> and \<open>GPIO_WRITE\<close> are calls into the board
  support code.  Each call is recorded in a log, oldest write first, and its effect on
  the duty register or on the pin is kept as well.
\<close>

datatype hw_write = AnalogSet coil "16 word" | GpioWrite pin level

text \<open>
  The constants, macros and tables of \<open>config.h\<close> and \<open>fastSine.h\<close> that the motor code
  uses.  They are parameters of the model.
\<close>

record board_config =
  IDLE_MODE :: COIL_STATE
  SINE_VAL_COUNT :: "32 word"
  SINE_MAX :: "32 word"
  fastSin :: "16 word \<Rightarrow> 16 word"
  fastCos :: "16 word \<Rightarrow> 16 word"
  PWM_MAX_DUTY_CYCLE :: "32 word"
  CURRENT_SENSE_RESISTOR :: real
  BOARD_VOLTAGE :: real
  MAX_RMS_BOARD_CURRENT :: "16 word"
  MAX_PEAK_BOARD_CURRENT :: "16 word"
  startupAngleOffset :: real
  ENABLE_DYNAMIC_CURRENT :: bool

text \<open>
  The readings of the angle sensor (\<open>encoder.h\<close>).  One call of a motor function sees
  one reading of each.
\<close>

record encoder_reading =
  getAngle :: real
  getAbsoluteAngle :: real
  getEncoderAccel :: real

text \<open>
  The fields of \<open>class StepperMotor\<close> that the functions below read or write, followed
  by the outputs of the board: the PWM duty of each coil, the level of each direction
  pin, and the log of writes.  Where \<open>motor.h\<close> and \<open>motor.cpp\<close> differ in the width
  of an integer (the microstepping divisor, the result of \<open>currentToPWM\<close>), the
  function definitions of \<open>motor.cpp\<close> are followed.
\<close>

record StepperMotor =
  rmsCurrent :: "16 word"
  peakCurrent :: "16 word"
  dynamicAccelCurrent :: "16 word"
  dynamicIdleCurrent :: "16 word"
  dynamicMaxCurrent :: "16 word"
  microstepDivisor :: "16 word"
  fullStepAngle :: real
  microstepAngle :: real
  reversed :: STEP_DIR
  enableInverted :: bool
  microstepMultiplier :: "32 word"
  currentAngle :: real
  desiredAngle :: real
  currentStep :: "32 word"
  state :: MOTOR_STATE
  previousCoilStateA :: COIL_STATE
  previousCoilStateB :: COIL_STATE
  pwmDuty :: "coil \<Rightarrow> 16 word"
  pinLevel :: "pin \<Rightarrow> level"
  hwLog :: "hw_write list"

section \<open>Arithmetic of the C++ source\<close>

text \<open>The Arduino macro \<open>constrain(amt, low, high)\<close>.\<close>

definition constrain :: "'a::linorder \<Rightarrow> 'a \<Rightarrow> 'a \<Rightarrow> 'a" where
  "constrain amt low high = (if amt < low then low else if amt > high then high else amt)"

text \<open>
  Conversion of a floating-point value to an integer type discards the fraction
  (truncation towards zero).
\<close>

definition trunc :: "real \<Rightarrow> int" where
  "trunc x = (if 0 \<le> x then \<lfloor>x\<rfloor> else \<lceil>x\<rceil>)"

text \<open>
  C++ defines the conversion only when the truncated value fits the target type.  For
  the other values the model keeps the low bits of the truncated value.  A theorem
  below that states what a converted value is restricts the input to the range where
  the language defines the result.
\<close>

definition float_to_word :: "real \<Rightarrow> 'a::len word" where
  "float_to_word x = word_of_int (trunc x)"

text \<open>\<open>round\<close> of C and of the Arduino core: to the nearest integer, halves away from zero.\<close>

definition cround :: "real \<Rightarrow> int" where
  "cround x = (if 0 \<le> x then \<lfloor>x + 1 / 2\<rfloor> else \<lceil>x - 1 / 2\<rceil>)"

text \<open>
  Single precision (IEEE 754 binary32): a significand of 24 bits, rounding to the
  nearest value, a tie going to the even significand.  \<open>binaryExponent x\<close> is the
  \<open>e\<close> with \<open>2^e \<le> x < 2^(e + 1)\<close> for a positive \<open>x\<close>; the spacing of the
  representable values around \<open>x\<close> is \<open>2^(e - 23)\<close>, and \<open>2^(-149)\<close> in the subnormal
  range.  A result of magnitude \<open>2^128\<close> or more, which the processor replaces by an
  infinity, is not modelled: the theorem that states a rounded value keeps the operands
  below that magnitude.
\<close>

definition roundEven :: "real \<Rightarrow> int" where
  "roundEven y =
     (let f = \<lfloor>y\<rfloor>; r = y - real_of_int f
      in if r < 1 / 2 then f else if 1 / 2 < r then f + 1 else if even f then f else f + 1)"

definition binaryExponent :: "real \<Rightarrow> int" where
  "binaryExponent x = (if 1 \<le> x then bitlen \<lfloor>x\<rfloor> - 1 else - bitlen (\<lceil>1 / x\<rceil> - 1))"

definition scaleBy :: "real \<Rightarrow> int \<Rightarrow> real" where
  "scaleBy x p = (if 0 \<le> p then x * 2 ^ nat p else x / 2 ^ nat (- p))"

definition float32 :: "real \<Rightarrow> real" where
  "float32 x =
     (if x = 0 then 0
      else (let p = max (binaryExponent \<bar>x\<bar> - 23) (- 149)
            in scaleBy (real_of_int (roundEven (scaleBy x (- p)))) p))"

text \<open>
  The remainder \<open>%\<close> and the quotient \<open>/\<close> of two \<open>int\<close> values truncate towards zero.
  A zero divisor is undefined in C++; the model inherits \<open>a smod 0 = a\<close> and
  \<open>a sdiv 0 = 0\<close> from the library.
\<close>

definition int32_rem :: "32 word \<Rightarrow> 32 word \<Rightarrow> 32 word" where
  "int32_rem a b = word_of_int (sint a smod sint b)"

definition int32_div :: "32 word \<Rightarrow> 32 word \<Rightarrow> 32 word" where
  "int32_div a b = word_of_int (sint a sdiv sint b)"

section \<open>Hardware primitives\<close>

definition analogSet :: "coil \<Rightarrow> 16 word \<Rightarrow> StepperMotor \<Rightarrow> StepperMotor" where
  "analogSet c v m =
     m\<lparr>pwmDuty := (pwmDuty m)(c := v), hwLog := hwLog m @ [AnalogSet c v]\<rparr>"

definition GPIO_WRITE :: "pin \<Rightarrow> level \<Rightarrow> StepperMotor \<Rightarrow> StepperMotor" where
  "GPIO_WRITE p l m =
     m\<lparr>pinLevel := (pinLevel m)(p := l), hwLog := hwLog m @ [GpioWrite p l]\<rparr>"

section \<open>Coil driver (motor.cpp)\<close>

text \<open>
  \<open>currentToPWM\<close>: \<open>abs\<close> of the unsigned argument is the argument; the quotient is
  converted to \<open>uint32_t\<close>, constrained, and returned as \<open>uint16_t\<close>.  The sense
  resistor and the board voltage are floating-point constants, so the quotient is a
  floating-point one.
\<close>

definition currentToPWM :: "board_config \<Rightarrow> 16 word \<Rightarrow> 16 word" where
  "currentToPWM cfg current =
     (let PWMValue = (float_to_word
            ((real (unat (PWM_MAX_DUTY_CYCLE cfg)) * CURRENT_SENSE_RESISTOR cfg
                * real (unat current))
              / (BOARD_VOLTAGE cfg * 100)) :: 32 word)
      in ucast (constrain PWMValue 0 (PWM_MAX_DUTY_CYCLE cfg)))"

definition setCoilA :: "board_config \<Rightarrow> COIL_STATE \<Rightarrow> 16 word \<Rightarrow> StepperMotor \<Rightarrow> StepperMotor" where
  "setCoilA cfg desiredState current m =
     (let m1 =
        (if desiredState \<noteq> previousCoilStateA m then
           (let m2 = analogSet CoilA 0 m;
                m3 =
                  (if desiredState = FORWARD then
                     GPIO_WRITE COIL_A_DIR_2_PIN LOW (GPIO_WRITE COIL_A_DIR_1_PIN HIGH m2)
                   else if desiredState = BACKWARD then
                     GPIO_WRITE COIL_A_DIR_2_PIN HIGH (GPIO_WRITE COIL_A_DIR_1_PIN LOW m2)
                   else if desiredState = BRAKE then
                     GPIO_WRITE COIL_A_DIR_2_PIN HIGH (GPIO_WRITE COIL_A_DIR_1_PIN HIGH m2)
                   else if desiredState = COAST then
                     GPIO_WRITE COIL_A_DIR_2_PIN LOW (GPIO_WRITE COIL_A_DIR_1_PIN LOW m2)
                   else m2)
            in m3\<lparr>previousCoilStateA := desiredState\<rparr>)
         else m)
      in analogSet CoilA (currentToPWM cfg current) m1)"

definition setCoilB :: "board_config \<Rightarrow> COIL_STATE \<Rightarrow> 16 word \<Rightarrow> StepperMotor \<Rightarrow> StepperMotor" where
  "setCoilB cfg desiredState current m =
     (let m1 =
        (if desiredState \<noteq> previousCoilStateB m then
           (let m2 = analogSet CoilB 0 m;
                m3 =
                  (if desiredState = FORWARD then
                     GPIO_WRITE COIL_B_DIR_2_PIN LOW (GPIO_WRITE COIL_B_DIR_1_PIN HIGH m2)
                   else if desiredState = BACKWARD then
                     GPIO_WRITE COIL_B_DIR_2_PIN HIGH (GPIO_WRITE COIL_B_DIR_1_PIN LOW m2)
                   else if desiredState = BRAKE then
                     GPIO_WRITE COIL_B_DIR_2_PIN HIGH (GPIO_WRITE COIL_B_DIR_1_PIN HIGH m2)
                   else if desiredState = COAST then
                     GPIO_WRITE COIL_B_DIR_2_PIN LOW (GPIO_WRITE COIL_B_DIR_1_PIN LOW m2)
                   else m2)
            in m3\<lparr>previousCoilStateB := desiredState\<rparr>)
         else m)
      in analogSet CoilB (currentToPWM cfg current) m1)"

section \<open>Direction inversion\<close>

definition setReversed :: "bool \<Rightarrow> StepperMotor \<Rightarrow> StepperMotor" where
  "setReversed isReversed m =
     (if isReversed then m\<lparr>reversed := STEP_DIR_of (- 1)\<rparr> else m\<lparr>reversed := STEP_DIR_of 1\<rparr>)"

definition getReversed :: "StepperMotor \<Rightarrow> bool" where
  "getReversed m = (if STEP_DIR_value (reversed m) > 0 then True else False)"


section \<open>Current limits (static current mode)\<close>

definition getRMSCurrent :: "StepperMotor \<Rightarrow> 16 word" where
  "getRMSCurrent m = rmsCurrent m"

definition getPeakCurrent :: "StepperMotor \<Rightarrow> 16 word" where
  "getPeakCurrent m = peakCurrent m"

text \<open>
  The guard compares the \<open>uint16_t\<close> argument, promoted to \<open>int\<close>, with \<open>-1\<close>.  The
  product with the \<open>double\<close> constant is cast to \<open>uint16_t\<close>.
\<close>

definition setRMSCurrent :: "board_config \<Rightarrow> 16 word \<Rightarrow> StepperMotor \<Rightarrow> StepperMotor" where
  "setRMSCurrent cfg newRmsCurrent m =
     (if uint newRmsCurrent \<noteq> - 1 then
        m\<lparr>rmsCurrent := constrain newRmsCurrent 0 (MAX_RMS_BOARD_CURRENT cfg),
          peakCurrent :=
            constrain (float_to_word (real (unat newRmsCurrent) * 1.414)) 0
              (MAX_PEAK_BOARD_CURRENT cfg)\<rparr>
      else m)"

definition setPeakCurrent :: "board_config \<Rightarrow> 16 word \<Rightarrow> StepperMotor \<Rightarrow> StepperMotor" where
  "setPeakCurrent cfg newPeakCurrent m =
     (if uint newPeakCurrent \<noteq> - 1 then
        m\<lparr>peakCurrent := constrain newPeakCurrent 0 (MAX_PEAK_BOARD_CURRENT cfg),
          rmsCurrent :=
            constrain (float_to_word (real (unat newPeakCurrent) * 0.707)) 0
              (MAX_RMS_BOARD_CURRENT cfg)\<rparr>
      else m)"

section \<open>Microstepping\<close>

definition getMicrostepping :: "StepperMotor \<Rightarrow> 16 word" where
  "getMicrostepping m = microstepDivisor m"

definition getMicrostepAngle :: "StepperMotor \<Rightarrow> real" where
  "getMicrostepAngle m = microstepAngle m"

text \<open>
  The quotient is a floating-point division.  For the divisor \<open>0\<close> it is infinite or
  not a number in C++ and \<open>0\<close> in HOL; the theorem about the quotient excludes that
  divisor.
\<close>

definition setMicrostepping :: "16 word \<Rightarrow> StepperMotor \<Rightarrow> StepperMotor" where
  "setMicrostepping newMicrostepping m =
     (if uint newMicrostepping \<noteq> - 1 then
        (let m1 = m\<lparr>microstepDivisor := newMicrostepping\<rparr>
         in m1\<lparr>microstepAngle := fullStepAngle m1 / real (unat (microstepDivisor m1))\<rparr>)
      else m)"

text \<open>
  The field \<open>microstepMultiplier\<close> is a \<open>uint32_t\<close> (motor.h): the assignment converts
  the \<open>float\<close> argument, and the getter converts the field back to \<open>float\<close>.
\<close>

definition setMicrostepMultiplier :: "real \<Rightarrow> StepperMotor \<Rightarrow> StepperMotor" where
  "setMicrostepMultiplier newMultiplier m =
     (if newMultiplier \<noteq> - 1 then m\<lparr>microstepMultiplier := float_to_word newMultiplier\<rparr>
      else m)"

definition getMicrostepMultiplier :: "StepperMotor \<Rightarrow> real" where
  "getMicrostepMultiplier m = real (unat (microstepMultiplier m))"

section \<open>Driving the coils\<close>

text \<open>
  The current that scales the sine and cosine, as the \<open>int16_t\<close> the source casts it
  to: the peak current, or with \<open>ENABLE_DYNAMIC_CURRENT\<close> the current computed from
  the measured acceleration.
\<close>

definition scaledCurrent :: "board_config \<Rightarrow> encoder_reading \<Rightarrow> StepperMotor \<Rightarrow> 16 word" where
  "scaledCurrent cfg enc m =
     (if ENABLE_DYNAMIC_CURRENT cfg then
        float_to_word
          (((\<bar>getEncoderAccel enc\<bar> * real (unat (dynamicAccelCurrent m)))
              + real (unat (dynamicIdleCurrent m))) * 1.414)
      else peakCurrent m)"

text \<open>
  \<open>(current * percent) / SINE_MAX\<close>: both factors are promoted to \<open>int\<close>, and the
  quotient is stored in an \<open>int16_t\<close>.
\<close>

definition coilPower :: "board_config \<Rightarrow> 16 word \<Rightarrow> 16 word \<Rightarrow> 16 word" where
  "coilPower cfg current percent =
     ucast (int32_div (scast current * scast percent) (SINE_MAX cfg))"

definition driveCoils ::
  "board_config \<Rightarrow> encoder_reading \<Rightarrow> 32 word \<Rightarrow> StepperMotor \<Rightarrow> StepperMotor" where
  "driveCoils cfg enc steps m =
     (let steps1 = int32_rem steps (4 * ucast (microstepDivisor m));
          arrayIndex = (ucast (steps1 AND (SINE_VAL_COUNT cfg - 1)) :: 16 word);
          coilAPercent = fastSin cfg arrayIndex;
          coilBPercent = fastCos cfg arrayIndex;
          coilAPower = coilPower cfg (scaledCurrent cfg enc m) coilAPercent;
          coilBPower = coilPower cfg (scaledCurrent cfg enc m) coilBPercent;
          m1 =
            (if 0 <s coilAPower then setCoilA cfg FORWARD coilAPower m
             else if coilAPower <s 0 then setCoilA cfg BACKWARD (- coilAPower) m
             else setCoilA cfg BRAKE 0 m)
      in if 0 <s coilBPower then setCoilB cfg FORWARD coilBPower m1
         else if coilBPower <s 0 then setCoilB cfg BACKWARD (- coilBPower) m1
         else setCoilB cfg BRAKE 0 m1)"

text \<open>The loop of \<open>driveCoilsAngle\<close> that adds or subtracts whole turns.\<close>

function constrainAngle :: "real \<Rightarrow> real" where
  "constrainAngle degAngle =
     (if degAngle < 0 \<or> degAngle > 360 then
        (if degAngle < 0 then constrainAngle (degAngle + 360)
         else constrainAngle (degAngle - 360))
      else degAngle)"
  by pat_completeness auto

termination
proof (relation "measure (\<lambda>a. if a < 0 then nat \<lceil>- a / 360\<rceil>
                               else if a > 360 then nat \<lceil>(a - 360) / 360\<rceil> else 0)")
  show "wf (measure (\<lambda>a::real. if a < 0 then nat \<lceil>- a / 360\<rceil>
                               else if a > 360 then nat \<lceil>(a - 360) / 360\<rceil> else 0))"
    by simp
next
  fix degAngle :: real
  assume a: "degAngle < 0 \<or> 360 < degAngle" "degAngle < 0"
  have c: "\<lceil>- (degAngle + 360) / 360\<rceil> = \<lceil>- degAngle / 360\<rceil> - 1"
  proof -
    have "- (degAngle + 360) / 360 = - degAngle / 360 - 1" by (simp add: field_simps)
    then show ?thesis by (simp only: ceiling_diff_one)
  qed
  have p: "0 < \<lceil>- degAngle / 360\<rceil>" using a by (simp add: ceiling_less_iff)
  show "(degAngle + 360, degAngle) \<in> measure (\<lambda>a. if a < 0 then nat \<lceil>- a / 360\<rceil>
                               else if a > 360 then nat \<lceil>(a - 360) / 360\<rceil> else 0)"
    using a c p by (auto simp: not_less)
next
  fix degAngle :: real
  assume a: "degAngle < 0 \<or> 360 < degAngle" "\<not> degAngle < 0"
  then have g: "360 < degAngle" by simp
  have c: "\<lceil>(degAngle - 360 - 360) / 360\<rceil> = \<lceil>(degAngle - 360) / 360\<rceil> - 1"
  proof -
    have "(degAngle - 360 - 360) / 360 = (degAngle - 360) / 360 - 1" by (simp add: field_simps)
    then show ?thesis by (simp only: ceiling_diff_one)
  qed
  have p: "0 < \<lceil>(degAngle - 360) / 360\<rceil>" using g by (simp add: ceiling_less_iff)
  show "(degAngle - 360, degAngle) \<in> measure (\<lambda>a. if a < 0 then nat \<lceil>- a / 360\<rceil>
                               else if a > 360 then nat \<lceil>(a - 360) / 360\<rceil> else 0)"
    using a g c p by (auto simp: not_less)
qed

declare constrainAngle.simps [simp del]

text \<open>
  The angle that \<open>driveCoilsAngle\<close> holds in \<open>degAngle\<close> when it leaves the loop: the
  correction by a rounded number of turns, then the loop.
\<close>

definition normalizedAngle :: "real \<Rightarrow> real" where
  "normalizedAngle degAngle =
     (let degAngle1 =
        (if degAngle < 0 then degAngle + real_of_int (cround (\<bar>degAngle\<bar> / 360)) * 360
         else if degAngle > 360 then degAngle - real_of_int (cround (degAngle / 360)) * 360
         else degAngle)
      in constrainAngle degAngle1)"

text \<open>
  The local variable \<open>microstepAngle\<close> of \<open>driveCoilsAngle\<close>.  It is computed in
  \<open>float\<close>: the quotient of two \<open>float\<close> values, rounded, times the divisor
  converted to \<open>float\<close>, rounded again.
\<close>

definition microstepsOfAngle :: "StepperMotor \<Rightarrow> real \<Rightarrow> real" where
  "microstepsOfAngle m degAngle =
     float32 (float32 (degAngle / fullStepAngle m) * real (unat (microstepDivisor m)))"

text \<open>
  The value rounded to an integer is stored in a \<open>uint16_t\<close> and passed to
  \<open>driveCoils\<close> as an \<open>int32_t\<close>; a value outside the \<open>uint16_t\<close> range is reduced
  to its low bits in the model.
\<close>

definition driveCoilsAngle ::
  "board_config \<Rightarrow> encoder_reading \<Rightarrow> real \<Rightarrow> StepperMotor \<Rightarrow> StepperMotor" where
  "driveCoilsAngle cfg enc degAngle m =
     (let degAngle2 = normalizedAngle degAngle;
          microsteps = microstepsOfAngle m degAngle2;
          roundedMicrosteps = (word_of_int (cround microsteps) :: 16 word)
      in driveCoils cfg enc (ucast roundedMicrosteps) m)"

section \<open>State machine\<close>

text \<open>
  The three groups of statements under the labels of the \<open>switch\<close> in \<open>setState\<close>.
  The first two end without a \<open>break\<close>, so control runs on into the next group.
  The last group addresses the coils through the global \<open>motor\<close>, which is the one
  \<open>StepperMotor\<close> object of the firmware.
\<close>

definition caseEnabled :: "board_config \<Rightarrow> encoder_reading \<Rightarrow> StepperMotor \<Rightarrow> StepperMotor" where
  "caseEnabled cfg enc m =
     (let m1 = driveCoilsAngle cfg enc (getAngle enc - startupAngleOffset cfg) m
      in m1\<lparr>currentAngle := getAngle enc - startupAngleOffset cfg, state := ENABLED\<rparr>)"

definition caseForcedEnabled ::
  "board_config \<Rightarrow> encoder_reading \<Rightarrow> StepperMotor \<Rightarrow> StepperMotor" where
  "caseForcedEnabled cfg enc m =
     (let m1 = driveCoilsAngle cfg enc (getAngle enc - startupAngleOffset cfg) m
      in m1\<lparr>currentAngle := getAngle enc - startupAngleOffset cfg, state := FORCED_ENABLED\<rparr>)"

definition caseDefault :: "board_config \<Rightarrow> MOTOR_STATE \<Rightarrow> StepperMotor \<Rightarrow> StepperMotor" where
  "caseDefault cfg newState m =
     (setCoilB cfg (IDLE_MODE cfg) 0 (setCoilA cfg (IDLE_MODE cfg) 0 m))\<lparr>state := newState\<rparr>"

definition setState ::
  "board_config \<Rightarrow> encoder_reading \<Rightarrow> MOTOR_STATE \<Rightarrow> bool \<Rightarrow> StepperMotor \<Rightarrow> StepperMotor" where
  "setState cfg enc newState clearErrors m =
     (if state m \<noteq> newState then
        (if clearErrors then
           (case newState of
              ENABLED \<Rightarrow>
                caseDefault cfg newState (caseForcedEnabled cfg enc (caseEnabled cfg enc m))
            | FORCED_ENABLED \<Rightarrow> caseDefault cfg newState (caseForcedEnabled cfg enc m)
            | _ \<Rightarrow> caseDefault cfg newState m)
         else
           (if state m = ENABLED \<or> state m = DISABLED then
              (case newState of
                 ENABLED \<Rightarrow> caseDefault cfg newState (caseEnabled cfg enc m)
               | _ \<Rightarrow> caseDefault cfg newState m)
            else m))
      else m)"

definition getState :: "StepperMotor \<Rightarrow> MOTOR_STATE" where
  "getState m = state m"

section \<open>PID controller (pid.cpp)\<close>

definition getAngleError :: "encoder_reading \<Rightarrow> StepperMotor \<Rightarrow> real" where
  "getAngleError enc m = getAbsoluteAngle enc - desiredAngle m"

text \<open>
  \<open>class StepperPID\<close> holds the three variables that the PID library reads and writes
  through pointers, and the library's controller object \<open>pid\<close>.
\<close>

record 'p StepperPID =
  pid :: 'p
  input :: real
  "output" :: real
  setpoint :: real

text \<open>
  \<open>PID::Compute\<close> belongs to the external PID library.  It is a parameter
  \<open>Compute\<close> of the model: from the controller object and the values of \<open>input\<close>,
  \<open>output\<close> and \<open>setpoint\<close> it yields the new \<open>output\<close> and the new controller
  object.
\<close>

definition compute ::
  "('p \<Rightarrow> real \<Rightarrow> real \<Rightarrow> real \<Rightarrow> real \<times> 'p) \<Rightarrow> encoder_reading \<Rightarrow> StepperMotor
     \<Rightarrow> 'p StepperPID \<Rightarrow> real \<times> 'p StepperPID" where
  "compute Compute enc motor sp =
     (let sp1 = sp\<lparr>input := getAngleError enc motor\<rparr>;
          r = Compute (pid sp1) (input sp1) (output sp1) (setpoint sp1);
          sp2 = sp1\<lparr>output := fst r, pid := snd r\<rparr>
      in (output sp2, sp2))"

section \<open>An example board\<close>

text \<open>
  A board for the concrete evaluations: a sine table of one entry per full step, idle
  coils coasting, and a motor as the constructor and the defaults leave it, at full
  stepping.
\<close>

definition example_config :: board_config where
  "example_config =
     \<lparr>IDLE_MODE = COAST,
      SINE_VAL_COUNT = 4,
      SINE_MAX = 10000,
      fastSin = (\<lambda>i. if i = 1 then 10000 else if i = 3 then - 10000 else 0),
      fastCos = (\<lambda>i. if i = 0 then 10000 else if i = 2 then - 10000 else 0),
      PWM_MAX_DUTY_CYCLE = 255,
      CURRENT_SENSE_RESISTOR = 0.2,
      BOARD_VOLTAGE = 3.3,
      MAX_RMS_BOARD_CURRENT = 2474,
      MAX_PEAK_BOARD_CURRENT = 3500,
      startupAngleOffset = 0,
      ENABLE_DYNAMIC_CURRENT = False\<rparr>"

definition example_encoder :: encoder_reading where
  "example_encoder = \<lparr>getAngle = 45, getAbsoluteAngle = 45, getEncoderAccel = 0\<rparr>"

definition example_motor :: StepperMotor where
  "example_motor =
     \<lparr>rmsCurrent = 707,
      peakCurrent = 1000,
      dynamicAccelCurrent = 0,
      dynamicIdleCurrent = 0,
      dynamicMaxCurrent = 0,
      microstepDivisor = 1,
      fullStepAngle = 1.8,
      microstepAngle = 1.8,
      reversed = POSITIVE,
      enableInverted = False,
      microstepMultiplier = 1,
      currentAngle = 0,
      desiredAngle = 10,
      currentStep = 0,
      state = DISABLED,
      previousCoilStateA = COAST,
      previousCoilStateB = COAST,
      pwmDuty = (\<lambda>c. 0),
      pinLevel = (\<lambda>p. LOW),
      hwLog = []\<rparr>"



text \<open>
  A stand-in for the library's controller, for the concrete evaluations: a purely
  proportional controller with gain 1 and no internal state.
\<close>

definition example_Compute :: "unit \<Rightarrow> real \<Rightarrow> real \<Rightarrow> real \<Rightarrow> real \<times> unit" where
  "example_Compute lib inp out sp = (sp - inp, lib)"

definition example_pid :: "unit StepperPID" where
  "example_pid = \<lparr>pid = (), input = 0, output = 0, setpoint = 0\<rparr>"

section \<open>Properties of the coil driver\<close>

lemma currentToPWM_zero: "currentToPWM cfg 0 = 0"
  by (simp add: currentToPWM_def float_to_word_def trunc_def constrain_def)

lemma currentToPWM_bound: "unat (currentToPWM cfg c) \<le> unat (PWM_MAX_DUTY_CYCLE cfg)"
proof -
  have a: "unat (ucast (w :: 32 word) :: 16 word) \<le> unat w" for w
    by (simp add: unsigned_ucast_eq take_bit_nat_less_eq_self)
  have b: "constrain (w :: 32 word) 0 h \<le> h" for w h
    by (auto simp add: constrain_def)
  show ?thesis
    unfolding currentToPWM_def Let_def
    by (rule order_trans [OF a]) (simp add: word_le_nat_alt [symmetric] b)
qed

lemma setCoilA_log:
  "hwLog (setCoilA cfg s c m) =
     hwLog m
     @ (if s = previousCoilStateA m then []
        else AnalogSet CoilA 0 #
          (case s of
             FORWARD \<Rightarrow> [GpioWrite COIL_A_DIR_1_PIN HIGH, GpioWrite COIL_A_DIR_2_PIN LOW]
           | BACKWARD \<Rightarrow> [GpioWrite COIL_A_DIR_1_PIN LOW, GpioWrite COIL_A_DIR_2_PIN HIGH]
           | BRAKE \<Rightarrow> [GpioWrite COIL_A_DIR_1_PIN HIGH, GpioWrite COIL_A_DIR_2_PIN HIGH]
           | COAST \<Rightarrow> [GpioWrite COIL_A_DIR_1_PIN LOW, GpioWrite COIL_A_DIR_2_PIN LOW]
           | COIL_NOT_SET \<Rightarrow> []))
     @ [AnalogSet CoilA (currentToPWM cfg c)]"
  by (cases s) (simp_all add: setCoilA_def analogSet_def GPIO_WRITE_def Let_def)

lemma setCoilA_cache: "previousCoilStateA (setCoilA cfg s c m) = s"
  by (simp add: setCoilA_def analogSet_def GPIO_WRITE_def Let_def)

lemma setCoilA_duty: "pwmDuty (setCoilA cfg s c m) CoilA = currentToPWM cfg c"
  by (simp add: setCoilA_def analogSet_def GPIO_WRITE_def Let_def)

lemma setCoilA_again:
  "previousCoilStateA m = s \<Longrightarrow> setCoilA cfg s c m = analogSet CoilA (currentToPWM cfg c) m"
  by (simp add: setCoilA_def)

lemma setCoilB_log:
  "hwLog (setCoilB cfg s c m) =
     hwLog m
     @ (if s = previousCoilStateB m then []
        else AnalogSet CoilB 0 #
          (case s of
             FORWARD \<Rightarrow> [GpioWrite COIL_B_DIR_1_PIN HIGH, GpioWrite COIL_B_DIR_2_PIN LOW]
           | BACKWARD \<Rightarrow> [GpioWrite COIL_B_DIR_1_PIN LOW, GpioWrite COIL_B_DIR_2_PIN HIGH]
           | BRAKE \<Rightarrow> [GpioWrite COIL_B_DIR_1_PIN HIGH, GpioWrite COIL_B_DIR_2_PIN HIGH]
           | COAST \<Rightarrow> [GpioWrite COIL_B_DIR_1_PIN LOW, GpioWrite COIL_B_DIR_2_PIN LOW]
           | COIL_NOT_SET \<Rightarrow> []))
     @ [AnalogSet CoilB (currentToPWM cfg c)]"
  by (cases s) (simp_all add: setCoilB_def analogSet_def GPIO_WRITE_def Let_def)

lemma setCoilB_cache: "previousCoilStateB (setCoilB cfg s c m) = s"
  by (simp add: setCoilB_def analogSet_def GPIO_WRITE_def Let_def)

lemma setCoilB_duty: "pwmDuty (setCoilB cfg s c m) CoilB = currentToPWM cfg c"
  by (simp add: setCoilB_def analogSet_def GPIO_WRITE_def Let_def)

lemma setCoilB_again:
  "previousCoilStateB m = s \<Longrightarrow> setCoilB cfg s c m = analogSet CoilB (currentToPWM cfg c) m"
  by (simp add: setCoilB_def)

lemma setCoilB_other:
  "pwmDuty (setCoilB cfg s c m) CoilA = pwmDuty m CoilA"
  "previousCoilStateA (setCoilB cfg s c m) = previousCoilStateA m"
  "currentAngle (setCoilB cfg s c m) = currentAngle m"
  by (simp_all add: setCoilB_def analogSet_def GPIO_WRITE_def Let_def)

lemma setCoilA_other:
  "currentAngle (setCoilA cfg s c m) = currentAngle m"
  by (simp add: setCoilA_def analogSet_def GPIO_WRITE_def Let_def)

text \<open>
  C8.  Two calls of \<open>setCoilA\<close> in a row with the same desired state (and likewise of
  \<open>setCoilB\<close>): the first call writes the direction pins if the desired state differs
  from the cached one, the second call writes no direction pin and only sets the PWM
  duty.  Both calls set the duty to \<open>currentToPWM\<close> of their current, and that value
  is at most \<open>PWM_MAX_DUTY_CYCLE\<close> (and, being unsigned, at least 0).
\<close>

theorem setCoil_twice_same_state:
  "hwLog (setCoilA cfg s c2 (setCoilA cfg s c1 m))
     = hwLog (setCoilA cfg s c1 m) @ [AnalogSet CoilA (currentToPWM cfg c2)]
   \<and> pinLevel (setCoilA cfg s c2 (setCoilA cfg s c1 m)) = pinLevel (setCoilA cfg s c1 m)
   \<and> pwmDuty (setCoilA cfg s c1 m) CoilA = currentToPWM cfg c1
   \<and> pwmDuty (setCoilA cfg s c2 (setCoilA cfg s c1 m)) CoilA = currentToPWM cfg c2
   \<and> hwLog (setCoilB cfg s c2 (setCoilB cfg s c1 m))
     = hwLog (setCoilB cfg s c1 m) @ [AnalogSet CoilB (currentToPWM cfg c2)]
   \<and> pinLevel (setCoilB cfg s c2 (setCoilB cfg s c1 m)) = pinLevel (setCoilB cfg s c1 m)
   \<and> pwmDuty (setCoilB cfg s c1 m) CoilB = currentToPWM cfg c1
   \<and> pwmDuty (setCoilB cfg s c2 (setCoilB cfg s c1 m)) CoilB = currentToPWM cfg c2
   \<and> unat (currentToPWM cfg c1) \<le> unat (PWM_MAX_DUTY_CYCLE cfg)
   \<and> unat (currentToPWM cfg c2) \<le> unat (PWM_MAX_DUTY_CYCLE cfg)
   \<and> hwLog (setCoilA cfg s c1 m) =
       hwLog m
       @ (if s = previousCoilStateA m then []
          else AnalogSet CoilA 0 #
            (case s of
               FORWARD \<Rightarrow> [GpioWrite COIL_A_DIR_1_PIN HIGH, GpioWrite COIL_A_DIR_2_PIN LOW]
             | BACKWARD \<Rightarrow> [GpioWrite COIL_A_DIR_1_PIN LOW, GpioWrite COIL_A_DIR_2_PIN HIGH]
             | BRAKE \<Rightarrow> [GpioWrite COIL_A_DIR_1_PIN HIGH, GpioWrite COIL_A_DIR_2_PIN HIGH]
             | COAST \<Rightarrow> [GpioWrite COIL_A_DIR_1_PIN LOW, GpioWrite COIL_A_DIR_2_PIN LOW]
             | COIL_NOT_SET \<Rightarrow> []))
       @ [AnalogSet CoilA (currentToPWM cfg c1)]
   \<and> hwLog (setCoilB cfg s c1 m) =
       hwLog m
       @ (if s = previousCoilStateB m then []
          else AnalogSet CoilB 0 #
            (case s of
               FORWARD \<Rightarrow> [GpioWrite COIL_B_DIR_1_PIN HIGH, GpioWrite COIL_B_DIR_2_PIN LOW]
             | BACKWARD \<Rightarrow> [GpioWrite COIL_B_DIR_1_PIN LOW, GpioWrite COIL_B_DIR_2_PIN HIGH]
             | BRAKE \<Rightarrow> [GpioWrite COIL_B_DIR_1_PIN HIGH, GpioWrite COIL_B_DIR_2_PIN HIGH]
             | COAST \<Rightarrow> [GpioWrite COIL_B_DIR_1_PIN LOW, GpioWrite COIL_B_DIR_2_PIN LOW]
             | COIL_NOT_SET \<Rightarrow> []))
       @ [AnalogSet CoilB (currentToPWM cfg c1)]"
proof -
  have twice:
    "hwLog (setCoilA cfg s c2 (setCoilA cfg s c1 m))
       = hwLog (setCoilA cfg s c1 m) @ [AnalogSet CoilA (currentToPWM cfg c2)]
     \<and> pinLevel (setCoilA cfg s c2 (setCoilA cfg s c1 m)) = pinLevel (setCoilA cfg s c1 m)
     \<and> pwmDuty (setCoilA cfg s c1 m) CoilA = currentToPWM cfg c1
     \<and> pwmDuty (setCoilA cfg s c2 (setCoilA cfg s c1 m)) CoilA = currentToPWM cfg c2
     \<and> hwLog (setCoilB cfg s c2 (setCoilB cfg s c1 m))
       = hwLog (setCoilB cfg s c1 m) @ [AnalogSet CoilB (currentToPWM cfg c2)]
     \<and> pinLevel (setCoilB cfg s c2 (setCoilB cfg s c1 m)) = pinLevel (setCoilB cfg s c1 m)
     \<and> pwmDuty (setCoilB cfg s c1 m) CoilB = currentToPWM cfg c1
     \<and> pwmDuty (setCoilB cfg s c2 (setCoilB cfg s c1 m)) CoilB = currentToPWM cfg c2"
    by (simp add: setCoilA_again [OF setCoilA_cache] setCoilB_again [OF setCoilB_cache]
        setCoilA_duty setCoilB_duty analogSet_def)
  show ?thesis
    using twice currentToPWM_bound [of cfg c1] currentToPWM_bound [of cfg c2]
      setCoilA_log [of cfg s c1 m] setCoilB_log [of cfg s c1 m]
    by blast
qed

section \<open>Properties of the direction inversion\<close>

text \<open>
  C9.  \<open>setReversed b\<close> followed by \<open>getReversed\<close> returns the negation of \<open>b\<close>:
  the setter stores the multiplier \<open>-1\<close> for true and \<open>1\<close> for false, and the getter
  reports true exactly when the stored multiplier is positive.
\<close>

theorem setReversed_getReversed:
  "getReversed (setReversed b m) = (\<not> b)
   \<and> STEP_DIR_value (reversed (setReversed b m)) = (if b then - 1 else 1)
   \<and> getReversed m = (0 < STEP_DIR_value (reversed m))"
  by (simp add: getReversed_def setReversed_def STEP_DIR_of_def)

section \<open>Properties of the state machine\<close>

text \<open>
  C6.  Without \<open>clearErrors\<close>, \<open>setState\<close> changes something only when the current
  state is \<open>ENABLED\<close> or \<open>DISABLED\<close>: in every other state (the forced states and
  \<open>OVERTEMP\<close> among them) the call returns the motor as it was, state and coil
  outputs included, whatever the target state.
\<close>

theorem setState_sticky:
  "state m \<noteq> ENABLED \<Longrightarrow> state m \<noteq> DISABLED \<Longrightarrow> setState cfg enc newState False m = m"
  by (simp add: setState_def)

theorem setState_sticky_witness:
  "state (example_motor\<lparr>state := FORCED_DISABLED\<rparr>) \<noteq> ENABLED
   \<and> state (example_motor\<lparr>state := FORCED_DISABLED\<rparr>) \<noteq> DISABLED
   \<and> setState example_config example_encoder ENABLED False
        (example_motor\<lparr>state := FORCED_DISABLED\<rparr>)
      = example_motor\<lparr>state := FORCED_DISABLED\<rparr>"
  using setState_sticky [of "example_motor\<lparr>state := FORCED_DISABLED\<rparr>"
      example_config example_encoder ENABLED]
  by simp


section \<open>Properties of the rounding to single precision\<close>

text \<open>
  \<open>binaryExponent\<close> brackets a positive value between two powers of two, and
  \<open>float32 x\<close> is a whole multiple of the spacing at \<open>x\<close> that lies within half a
  spacing of \<open>x\<close>.
\<close>

lemma scaleBy_powr: "scaleBy x p = x * 2 powr real_of_int p"
proof (cases "0 \<le> p")
  case True
  then have "2 powr real_of_int p = (2::real) ^ nat p"
    by (simp add: powr_realpow [symmetric])
  with True show ?thesis by (simp add: scaleBy_def)
next
  case False
  then have "2 powr real_of_int p = 1 / (2::real) ^ nat (- p)"
    by (simp add: powr_realpow [symmetric] powr_minus_divide [symmetric])
  with False show ?thesis by (simp add: scaleBy_def)
qed

lemma binaryExponent_bounds:
  assumes "0 < x"
  shows "scaleBy 1 (binaryExponent x) \<le> x \<and> x < scaleBy 2 (binaryExponent x)"
proof (cases "1 \<le> x")
  case True
  then have n: "0 < \<lfloor>x\<rfloor>" by simp
  define b where "b = bitlen \<lfloor>x\<rfloor>"
  from bitlen_bounds [OF n] have lo: "2 ^ nat (b - 1) \<le> \<lfloor>x\<rfloor>" and hi: "\<lfloor>x\<rfloor> < 2 ^ nat b"
    by (simp_all add: b_def)
  have b1: "1 \<le> b"
  proof (rule ccontr)
    assume "\<not> 1 \<le> b"
    then have "nat b = 0" by simp
    with hi n show False by simp
  qed
  have "real_of_int (2 ^ nat (b - 1)) \<le> real_of_int \<lfloor>x\<rfloor>" using lo by (simp only: of_int_le_iff)
  then have "2 ^ nat (b - 1) \<le> real_of_int \<lfloor>x\<rfloor>" by simp
  moreover have "real_of_int \<lfloor>x\<rfloor> \<le> x" by linarith
  ultimately have l: "(2::real) ^ nat (b - 1) \<le> x" by linarith
  from hi have "\<lfloor>x\<rfloor> + 1 \<le> 2 ^ nat b" by simp
  then have "real_of_int (\<lfloor>x\<rfloor> + 1) \<le> real_of_int (2 ^ nat b)" by (simp only: of_int_le_iff)
  then have "real_of_int \<lfloor>x\<rfloor> + 1 \<le> 2 ^ nat b" by simp
  moreover have "x < real_of_int \<lfloor>x\<rfloor> + 1" by linarith
  ultimately have "x < (2::real) ^ nat b" by linarith
  moreover have "(2::real) ^ nat b = 2 * 2 ^ nat (b - 1)"
  proof -
    from b1 have "nat b = Suc (nat (b - 1))" by simp
    then show ?thesis by simp
  qed
  ultimately have h: "x < 2 * 2 ^ nat (b - 1)" by simp
  from True b1 l h show ?thesis
    by (simp add: binaryExponent_def scaleBy_def b_def)
next
  case False
  with assms have x1: "x < 1" by simp
  define y where "y = 1 / x"
  from assms x1 have y1: "1 < y" by (simp add: y_def)
  define b where "b = bitlen (\<lceil>y\<rceil> - 1)"
  from y1 have "1 < \<lceil>y\<rceil>" by (simp add: less_ceiling_iff)
  then have n: "0 < \<lceil>y\<rceil> - 1" by simp
  from bitlen_bounds [OF n] have lo: "2 ^ nat (b - 1) \<le> \<lceil>y\<rceil> - 1" and hi: "\<lceil>y\<rceil> - 1 < 2 ^ nat b"
    by (simp_all add: b_def)
  have b1: "1 \<le> b"
  proof (rule ccontr)
    assume "\<not> 1 \<le> b"
    then have "nat b = 0" by simp
    with hi n show False by simp
  qed
  from hi have "\<lceil>y\<rceil> \<le> 2 ^ nat b" by simp
  then have "real_of_int \<lceil>y\<rceil> \<le> real_of_int (2 ^ nat b)" by (simp only: of_int_le_iff)
  then have "real_of_int \<lceil>y\<rceil> \<le> 2 ^ nat b" by simp
  moreover have "y \<le> real_of_int \<lceil>y\<rceil>" by linarith
  ultimately have yb: "y \<le> (2::real) ^ nat b" by linarith
  have "real_of_int (2 ^ nat (b - 1)) \<le> real_of_int (\<lceil>y\<rceil> - 1)" using lo by (simp only: of_int_le_iff)
  then have "2 ^ nat (b - 1) \<le> real_of_int \<lceil>y\<rceil> - 1" by simp
  moreover have "real_of_int \<lceil>y\<rceil> - 1 < y" by linarith
  ultimately have yl: "(2::real) ^ nat (b - 1) < y" by linarith
  have p: "(2::real) ^ nat b = 2 * 2 ^ nat (b - 1)"
  proof -
    from b1 have "nat b = Suc (nat (b - 1))" by simp
    then show ?thesis by simp
  qed
  from yb assms have l: "1 / 2 ^ nat b \<le> x"
    by (simp add: y_def field_simps)
  from yl assms have "x * 2 ^ nat (b - 1) < 1"
    by (simp add: y_def field_simps)
  then have h: "x < 2 / 2 ^ nat b"
    by (simp add: p field_simps)
  from False b1 l h show ?thesis
    by (simp add: binaryExponent_def scaleBy_def b_def y_def)
qed

lemma roundEven_nearest: "\<bar>real_of_int (roundEven y) - y\<bar> \<le> 1 / 2"
proof -
  have "real_of_int \<lfloor>y\<rfloor> \<le> y" "y < real_of_int \<lfloor>y\<rfloor> + 1" by linarith+
  then show ?thesis
    by (auto simp: roundEven_def Let_def abs_le_iff)
qed

lemma float32_nearest:
  "\<bar>float32 x - x\<bar> \<le> scaleBy (1 / 2) (max (binaryExponent \<bar>x\<bar> - 23) (- 149))"
proof (cases "x = 0")
  case True
  then show ?thesis by (simp add: float32_def scaleBy_powr)
next
  case False
  define p where "p = max (binaryExponent \<bar>x\<bar> - 23) (- 149)"
  define y where "y = scaleBy x (- p)"
  have xy: "x = y * 2 powr real_of_int p"
    by (simp add: y_def scaleBy_powr powr_minus field_simps)
  have "float32 x = real_of_int (roundEven y) * 2 powr real_of_int p"
    using False by (simp add: float32_def Let_def p_def y_def scaleBy_powr)
  then have "float32 x - x = (real_of_int (roundEven y) - y) * 2 powr real_of_int p"
    using xy by (simp add: algebra_simps)
  then have "\<bar>float32 x - x\<bar> = \<bar>real_of_int (roundEven y) - y\<bar> * 2 powr real_of_int p"
    by (simp add: abs_mult)
  also have "\<dots> \<le> 1 / 2 * 2 powr real_of_int p"
    by (rule mult_right_mono [OF roundEven_nearest]) simp
  finally show ?thesis by (simp add: p_def scaleBy_powr)
qed

section \<open>Properties of the angle normalisation\<close>


lemma constrainAngle_id: "0 \<le> a \<Longrightarrow> a \<le> 360 \<Longrightarrow> constrainAngle a = a"
  by (subst constrainAngle.simps) simp






lemma example_normalizedAngle_45: "normalizedAngle 45 = 45"
  by (simp add: normalizedAngle_def constrainAngle_id)





text \<open>
  Why the rounding to single precision is modelled: at the angle 9.9 and the full-step
  angle 1.8, both as the \<open>float\<close> nearest to them, the exact quotient lies just below
  5.5 and its \<open>float\<close> is 5.5, so the code drives microstep 6 and not 5.
\<close>

lemma microsteps_half_way:
  "cround (float32 (float32 (float32 9.9 / float32 1.8) * 1)) = 6
   \<and> cround (float32 9.9 / float32 1.8 * 1) = 5
   \<and> float32 9.9 = 5190451 / 524288 \<and> float32 1.8 = 7549747 / 4194304"
  by code_simp

lemma microsteps_half_way_motor:
  "microstepsOfAngle (example_motor\<lparr>fullStepAngle := float32 1.8\<rparr>)
       (normalizedAngle (float32 9.9)) = 5.5
   \<and> cround (microstepsOfAngle (example_motor\<lparr>fullStepAngle := float32 1.8\<rparr>)
       (normalizedAngle (float32 9.9))) = 6"
proof -
  have v: "float32 9.9 = 5190451 / 524288" "float32 1.8 = 7549747 / 4194304"
    using microsteps_half_way by simp_all
  have n: "normalizedAngle (5190451 / 524288) = 5190451 / 524288"
    by (simp add: normalizedAngle_def constrainAngle_id)
  have d: "real (unat (microstepDivisor example_motor)) = 1"
    by (simp add: example_motor_def)
  have q: "float32 (float32 ((5190451 / 524288) / (7549747 / 4194304)) * 1) = 5.5"
    by code_simp
  have m: "microstepsOfAngle (example_motor\<lparr>fullStepAngle := float32 1.8\<rparr>)
       (normalizedAngle (float32 9.9)) = 5.5"
    unfolding v n microstepsOfAngle_def using q d by simp
  show ?thesis unfolding m by (simp add: cround_def)
qed

lemma example_microstepsOfAngle: "microstepsOfAngle example_motor 45 = 25"
proof -
  have "float32 (float32 (45 / 1.8) * 1) = 25" by code_simp
  then show ?thesis by (simp add: microstepsOfAngle_def example_motor_def)
qed




section \<open>Properties of the setters\<close>

lemma uint_neq_minus_one [simp]: "uint (w :: 'a::len word) \<noteq> - 1"
  using uint_ge_0 [of w] by linarith

text \<open>
  C3, as stated, fails in its second half: \<open>setMicrostepping(3)\<close> is not a no-op.
  The setter does not compare its argument with the set \<open>{1, 2, 4, 8, 16, 32}\<close>.
\<close>

theorem setMicrostepping_no_validation_counterexample:
  "setMicrostepping 3 example_motor \<noteq> example_motor
   \<and> getMicrostepping (setMicrostepping 3 example_motor) = 3
   \<and> getMicrostepping example_motor = 1"
proof -
  have a: "getMicrostepping (setMicrostepping 3 example_motor) = 3"
    by (simp add: getMicrostepping_def setMicrostepping_def Let_def)
  have b: "getMicrostepping example_motor = 1"
    by (simp add: getMicrostepping_def example_motor_def)
  from a b have "setMicrostepping 3 example_motor \<noteq> example_motor" by auto
  with a b show ?thesis by simp
qed

text \<open>
  C3, amended.  For every 16-bit value \<open>d\<close> other than 65535, in the set
  \<open>{1, 2, 4, 8, 16, 32}\<close> or not, \<open>setMicrostepping(d)\<close> stores \<open>d\<close>; for
  \<open>d \<noteq> 0\<close> it recomputes \<open>microstepAngle = fullStepAngle / d\<close> and changes nothing
  else.  The value 65535 is the sentinel \<open>-1\<close> in 16 bits, which the guard of the
  setter is written to refuse; what the setter does with it is not part of the
  statement.
\<close>

theorem setMicrostepping_stores:
  assumes "d \<noteq> 65535"
  shows "getMicrostepping (setMicrostepping d m) = d
   \<and> (d \<noteq> 0 \<longrightarrow>
        setMicrostepping d m =
          m\<lparr>microstepDivisor := d, microstepAngle := fullStepAngle m / real (unat d)\<rparr>
        \<and> getMicrostepAngle (setMicrostepping d m) = fullStepAngle m / real (unat d))"
  by (simp add: getMicrostepping_def getMicrostepAngle_def setMicrostepping_def Let_def)

theorem setMicrostepping_stores_witness:
  "(16 :: 16 word) \<noteq> 65535
   \<and> getMicrostepping (setMicrostepping 16 example_motor) = 16
   \<and> (16 :: 16 word) \<noteq> 0
   \<and> getMicrostepAngle (setMicrostepping 16 example_motor) = 0.1125
   \<and> (3 :: 16 word) \<noteq> 65535
   \<and> getMicrostepping (setMicrostepping 3 example_motor) = 3
   \<and> getMicrostepAngle (setMicrostepping 3 example_motor) = 0.6"
proof -
  have f: "fullStepAngle example_motor = 1.8" by (simp add: example_motor_def)
  have n: "(16 :: 16 word) \<noteq> 65535" "(3 :: 16 word) \<noteq> 65535" by simp_all
  show ?thesis
    using setMicrostepping_stores [OF n(1), of example_motor]
      setMicrostepping_stores [OF n(2), of example_motor] f
    by (simp add: getMicrostepping_def getMicrostepAngle_def)
qed

text \<open>
  C10, as stated, fails for a negative argument other than the sentinel: the unsigned
  field cannot hold the truncation \<open>-2\<close> of \<open>-2.0\<close>, and what is read back is not
  negative.
\<close>

theorem microstepMultiplier_negative_counterexample:
  "getMicrostepMultiplier (setMicrostepMultiplier (- 2) example_motor) \<noteq> real_of_int (trunc (- 2))
   \<and> trunc (- 2) = - 2
   \<and> 0 \<le> getMicrostepMultiplier (setMicrostepMultiplier (- 2) example_motor)"
  by (simp add: getMicrostepMultiplier_def setMicrostepMultiplier_def float_to_word_def trunc_def)

lemma trunc_range: "- 1 < x \<Longrightarrow> x < 2 ^ 32 \<Longrightarrow> 0 \<le> trunc x \<and> trunc x < 2 ^ 32"
  unfolding trunc_def
  by (auto simp: floor_less_iff ceiling_le_iff le_ceiling_iff)

text \<open>
  C10, amended.  For every \<open>x\<close> whose truncation fits the unsigned 32-bit field, that
  is \<open>-1 < x < 2^32\<close>, \<open>setMicrostepMultiplier(x)\<close> followed by
  \<open>getMicrostepMultiplier()\<close> returns the integer truncation of \<open>x\<close>; 1.34 reads back
  as 1.0.  (The truncation of a \<open>float\<close> in that range is a \<open>float\<close>, so the
  conversion back is exact.)
\<close>

theorem microstepMultiplier_truncates:
  assumes "- 1 < x" and "x < 2 ^ 32"
  shows "getMicrostepMultiplier (setMicrostepMultiplier x m) = real_of_int (trunc x)"
proof -
  from assms have r: "0 \<le> trunc x" "trunc x < 2 ^ 32" using trunc_range by auto
  have ne: "x \<noteq> - 1" using assms by simp
  have "unat (word_of_int (trunc x) :: 32 word) = nat (trunc x)"
    using r by (simp add: unat_eq_nat_uint uint_word_of_int take_bit_int_eq_self)
  then show ?thesis
    using r ne by (simp add: getMicrostepMultiplier_def setMicrostepMultiplier_def float_to_word_def)
qed

theorem microstepMultiplier_truncates_witness:
  "- 1 < (1.34 :: real) \<and> (1.34 :: real) < 2 ^ 32
   \<and> getMicrostepMultiplier (setMicrostepMultiplier 1.34 example_motor) = 1.0"
  using microstepMultiplier_truncates [of "1.34" example_motor]
  by (simp add: trunc_def)

section \<open>Properties of the current limits\<close>

lemma MAX_PEAK_example: "MAX_PEAK_BOARD_CURRENT example_config = 3500"
  by (simp add: example_config_def)
lemma MAX_RMS_example: "MAX_RMS_BOARD_CURRENT example_config = 2474"
  by (simp add: example_config_def)

text \<open>
  C5, as stated, fails: the cast to \<open>uint16_t\<close> truncates, it does not round.  An
  RMS current of 2 mA gives a peak current of 2 mA, not \<open>round(2.828) = 3\<close>, and a
  peak current of 1 mA gives an RMS current of 0 mA, not \<open>round(0.707) = 1\<close>.
\<close>

theorem current_conversion_truncates_counterexample:
  "uint (getPeakCurrent (setRMSCurrent example_config 2 example_motor))
     \<noteq> constrain (round (real 2 * 1.414)) 0 (uint (MAX_PEAK_BOARD_CURRENT example_config))
   \<and> uint (getPeakCurrent (setRMSCurrent example_config 2 example_motor)) = 2
   \<and> round (real 2 * 1.414) = 3
   \<and> uint (getRMSCurrent (setPeakCurrent example_config 1 example_motor))
     \<noteq> constrain (round (real 1 * 0.707)) 0 (uint (MAX_RMS_BOARD_CURRENT example_config))"
  by (simp add: getPeakCurrent_def getRMSCurrent_def setRMSCurrent_def setPeakCurrent_def
      float_to_word_def trunc_def constrain_def round_def MAX_PEAK_example MAX_RMS_example)

lemma uint_constrain:
  "uint (constrain (w :: 16 word) 0 h) = constrain (uint w) 0 (uint h)"
  by (auto simp: constrain_def word_less_def word_le_def not_less)

lemma uint_float_to_word16:
  assumes "0 \<le> x" and "x < 65536"
  shows "uint (float_to_word x :: 16 word) = \<lfloor>x\<rfloor>"
proof -
  have "0 \<le> \<lfloor>x\<rfloor>" "\<lfloor>x\<rfloor> < 2 ^ 16" using assms by (simp_all add: floor_less_iff)
  then show ?thesis
    using assms by (simp add: float_to_word_def trunc_def uint_word_of_int take_bit_int_eq_self)
qed

text \<open>
  C5, amended.  In static current mode \<open>setRMSCurrent(X)\<close> followed by
  \<open>getPeakCurrent()\<close> returns the integer part of \<open>X * 1.414\<close> clamped to the
  board's peak maximum, for every \<open>X\<close> up to 46347 (the values for which the product
  fits the \<open>uint16_t\<close> it is cast to); \<open>setPeakCurrent(Y)\<close> followed by
  \<open>getRMSCurrent()\<close> returns the integer part of \<open>Y * 0.707\<close> clamped to the board's
  RMS maximum, for every \<open>Y\<close>.
\<close>

theorem current_conversion_truncates:
  "(unat X \<le> 46347 \<longrightarrow>
      uint (getPeakCurrent (setRMSCurrent cfg X m))
        = constrain \<lfloor>real (unat X) * 1.414\<rfloor> 0 (uint (MAX_PEAK_BOARD_CURRENT cfg)))
   \<and> uint (getRMSCurrent (setPeakCurrent cfg Y m))
        = constrain \<lfloor>real (unat Y) * 0.707\<rfloor> 0 (uint (MAX_RMS_BOARD_CURRENT cfg))"
proof
  show "unat X \<le> 46347 \<longrightarrow>
      uint (getPeakCurrent (setRMSCurrent cfg X m))
        = constrain \<lfloor>real (unat X) * 1.414\<rfloor> 0 (uint (MAX_PEAK_BOARD_CURRENT cfg))"
  proof
    assume "unat X \<le> 46347"
    then have "real (unat X) \<le> real 46347" by (rule of_nat_mono)
    then have lt: "real (unat X) * 1.414 < 65536" by simp
    have nn: "0 \<le> real (unat X) * 1.414"
      by (intro mult_nonneg_nonneg of_nat_0_le_iff) simp
    have "uint (float_to_word (real (unat X) * 1.414) :: 16 word) = \<lfloor>real (unat X) * 1.414\<rfloor>"
      by (rule uint_float_to_word16 [OF nn lt])
    then show "uint (getPeakCurrent (setRMSCurrent cfg X m))
        = constrain \<lfloor>real (unat X) * 1.414\<rfloor> 0 (uint (MAX_PEAK_BOARD_CURRENT cfg))"
      by (simp add: getPeakCurrent_def setRMSCurrent_def uint_constrain)
  qed
next
  have "unat Y < 65536" using unsigned_less [of Y, where 'a = nat] by simp
  then have "real (unat Y) < real 65536" by (simp only: of_nat_less_iff)
  then have lt: "real (unat Y) * 0.707 < 65536" by simp
  have nn: "0 \<le> real (unat Y) * 0.707"
    by (intro mult_nonneg_nonneg of_nat_0_le_iff) simp
  have "uint (float_to_word (real (unat Y) * 0.707) :: 16 word) = \<lfloor>real (unat Y) * 0.707\<rfloor>"
    by (rule uint_float_to_word16 [OF nn lt])
  then show "uint (getRMSCurrent (setPeakCurrent cfg Y m))
        = constrain \<lfloor>real (unat Y) * 0.707\<rfloor> 0 (uint (MAX_RMS_BOARD_CURRENT cfg))"
    by (simp add: getRMSCurrent_def setPeakCurrent_def uint_constrain)
qed

theorem current_conversion_truncates_witness:
  "unat (750 :: 16 word) \<le> 46347
   \<and> uint (getPeakCurrent (setRMSCurrent example_config 750 example_motor)) = 1060
   \<and> uint (getRMSCurrent (setPeakCurrent example_config 1500 example_motor)) = 1060
   \<and> uint (getPeakCurrent (setRMSCurrent example_config 3000 example_motor)) = 3500"
  using current_conversion_truncates [of 750 example_config example_motor 1500]
    current_conversion_truncates [of 3000 example_config example_motor 1500]
  by (simp add: constrain_def MAX_PEAK_example MAX_RMS_example)

section \<open>Properties of the PID wrapper\<close>

text \<open>
  C2, as stated, fails in the sign of the error: with the desired angle 10 and the
  measured angle 45 the input of the controller is 35, not \<open>10 - 45\<close>.
\<close>

theorem compute_error_sign_counterexample:
  "input (snd (compute example_Compute example_encoder example_motor example_pid))
     \<noteq> desiredAngle example_motor - getAbsoluteAngle example_encoder
   \<and> input (snd (compute example_Compute example_encoder example_motor example_pid)) = 35
   \<and> desiredAngle example_motor - getAbsoluteAngle example_encoder = - 35"
  by (simp add: compute_def getAngleError_def Let_def example_encoder_def example_motor_def)

text \<open>
  C2, amended.  Each call of \<open>compute\<close> sets the input of the controller to the
  measured absolute angle minus the desired angle (\<open>getAngleError\<close>), runs the
  library's \<open>Compute\<close> on it, and returns the output that \<open>Compute\<close> produced.
\<close>

theorem compute_samples_angle_error:
  "compute Compute enc motor sp =
     (fst (Compute (pid sp) (getAbsoluteAngle enc - desiredAngle motor) (output sp) (setpoint sp)),
      sp\<lparr>input := getAbsoluteAngle enc - desiredAngle motor,
         output :=
           fst (Compute (pid sp) (getAbsoluteAngle enc - desiredAngle motor) (output sp) (setpoint sp)),
         pid :=
           snd (Compute (pid sp) (getAbsoluteAngle enc - desiredAngle motor) (output sp) (setpoint sp))\<rparr>)
   \<and> getAngleError enc motor = getAbsoluteAngle enc - desiredAngle motor"
  by (simp add: compute_def getAngleError_def Let_def)

section \<open>Periodicity of the coil drive\<close>










section \<open>The enabling transition\<close>

lemma example_currentToPWM_1000: "currentToPWM example_config 1000 = 154"
  by (simp add: currentToPWM_def example_config_def float_to_word_def trunc_def constrain_def)

lemma example_microsteps:
  "(word_of_int (cround (microstepsOfAngle example_motor (normalizedAngle 45))) :: 16 word) = 25"
  by (simp add: example_normalizedAngle_45 example_microstepsOfAngle cround_def)

lemma example_index_25:
  "(ucast (int32_rem (ucast (25 :: 16 word)) (4 * ucast (microstepDivisor example_motor))
      AND (SINE_VAL_COUNT example_config - 1)) :: 16 word) = 1"
  by (simp add: int32_rem_def example_motor_def example_config_def signed_modulo_int_def)

lemma example_powers:
  "coilPower example_config (scaledCurrent example_config example_encoder example_motor)
     (fastSin example_config 1) = 1000"
  "coilPower example_config (scaledCurrent example_config example_encoder example_motor)
     (fastCos example_config 1) = 0"
  by (simp_all add: coilPower_def scaledCurrent_def int32_div_def example_config_def
      example_motor_def signed_divide_int_def)

lemma startup_zero: "startupAngleOffset example_config = 0"
  by (simp add: example_config_def)

lemma example_locked:
  "hwLog (driveCoilsAngle example_config example_encoder 45 example_motor) =
     [AnalogSet CoilA 0, GpioWrite COIL_A_DIR_1_PIN HIGH, GpioWrite COIL_A_DIR_2_PIN LOW,
      AnalogSet CoilA 154,
      AnalogSet CoilB 0, GpioWrite COIL_B_DIR_1_PIN HIGH, GpioWrite COIL_B_DIR_2_PIN HIGH,
      AnalogSet CoilB 0]"
proof -
  have d: "driveCoilsAngle example_config example_encoder 45 example_motor
      = setCoilB example_config BRAKE 0 (setCoilA example_config FORWARD 1000 example_motor)"
    unfolding driveCoilsAngle_def driveCoils_def Let_def
    by (simp only: example_microsteps example_index_25 example_powers)
       (simp add: word_sless_alt)
  show ?thesis
    unfolding d
    by (simp add: setCoilB_log setCoilA_log setCoilA_def analogSet_def GPIO_WRITE_def Let_def
        example_currentToPWM_1000 currentToPWM_zero)
       (simp add: example_motor_def)
qed


lemma setState_enable_falls_through:
  assumes "state m = DISABLED"
  shows "setState cfg enc ENABLED False m = caseDefault cfg ENABLED (caseEnabled cfg enc m)"
    and "state (setState cfg enc ENABLED False m) = ENABLED"
    and "currentAngle (setState cfg enc ENABLED False m) = getAngle enc - startupAngleOffset cfg"
    and "pwmDuty (setState cfg enc ENABLED False m) CoilA = 0"
    and "pwmDuty (setState cfg enc ENABLED False m) CoilB = 0"
    and "previousCoilStateA (setState cfg enc ENABLED False m) = IDLE_MODE cfg"
    and "previousCoilStateB (setState cfg enc ENABLED False m) = IDLE_MODE cfg"
proof -
  show e: "setState cfg enc ENABLED False m = caseDefault cfg ENABLED (caseEnabled cfg enc m)"
    using assms by (simp add: setState_def)
  show "state (setState cfg enc ENABLED False m) = ENABLED"
    by (simp add: e caseDefault_def)
  show "currentAngle (setState cfg enc ENABLED False m) = getAngle enc - startupAngleOffset cfg"
    by (simp add: e caseDefault_def caseEnabled_def setCoilB_other setCoilA_other Let_def)
  show "pwmDuty (setState cfg enc ENABLED False m) CoilA = 0"
    by (simp add: e caseDefault_def setCoilB_other setCoilA_duty currentToPWM_zero)
  show "pwmDuty (setState cfg enc ENABLED False m) CoilB = 0"
    by (simp add: e caseDefault_def setCoilB_duty currentToPWM_zero)
  show "previousCoilStateA (setState cfg enc ENABLED False m) = IDLE_MODE cfg"
    by (simp add: e caseDefault_def setCoilB_other setCoilA_cache)
  show "previousCoilStateB (setState cfg enc ENABLED False m) = IDLE_MODE cfg"
    by (simp add: e caseDefault_def setCoilB_cache)
qed

lemma example_locked_eq:
  "driveCoilsAngle example_config example_encoder 45 example_motor
      = setCoilB example_config BRAKE 0 (setCoilA example_config FORWARD 1000 example_motor)"
  unfolding driveCoilsAngle_def driveCoils_def Let_def
  by (simp only: example_microsteps example_index_25 example_powers)
     (simp add: word_sless_alt)

lemma example_getAngle: "getAngle example_encoder = 45"
  by (simp add: example_encoder_def)

lemma example_caseEnabled:
  "caseEnabled example_config example_encoder example_motor
     = (setCoilB example_config BRAKE 0 (setCoilA example_config FORWARD 1000 example_motor))
         \<lparr>currentAngle := 45, state := ENABLED\<rparr>"
  by (simp add: caseEnabled_def example_getAngle startup_zero example_locked_eq Let_def)

text \<open>
  C1.  The code at the claim's scenario: the motor is \<open>DISABLED\<close>, the sensor reads
  45 degrees, and \<open>setState(ENABLED, false)\<close> is called.  The state becomes
  \<open>ENABLED\<close> and \<open>currentAngle\<close> is corrected to 45; the statements under
  \<open>case ENABLED\<close> lock the coils (coil A forward with a duty of 154, coil B braking).
  There is no \<open>break\<close>, so the statements under \<open>default\<close> run next and set both
  coils to the idle mode with a duty of 0: at the end of the call the coils are not
  energized.  The log shows the eight writes of the lock followed by the eight writes
  that undo it.
\<close>

theorem setState_enable_leaves_coils_idle:
  "state (setState example_config example_encoder ENABLED False example_motor) = ENABLED
   \<and> currentAngle (setState example_config example_encoder ENABLED False example_motor) = 45
   \<and> pwmDuty (caseEnabled example_config example_encoder example_motor) CoilA = 154
   \<and> previousCoilStateA (caseEnabled example_config example_encoder example_motor) = FORWARD
   \<and> pwmDuty (setState example_config example_encoder ENABLED False example_motor) CoilA = 0
   \<and> pwmDuty (setState example_config example_encoder ENABLED False example_motor) CoilB = 0
   \<and> previousCoilStateA (setState example_config example_encoder ENABLED False example_motor)
       = COAST
   \<and> previousCoilStateB (setState example_config example_encoder ENABLED False example_motor)
       = COAST
   \<and> hwLog (setState example_config example_encoder ENABLED False example_motor) =
       [AnalogSet CoilA 0, GpioWrite COIL_A_DIR_1_PIN HIGH, GpioWrite COIL_A_DIR_2_PIN LOW,
        AnalogSet CoilA 154,
        AnalogSet CoilB 0, GpioWrite COIL_B_DIR_1_PIN HIGH, GpioWrite COIL_B_DIR_2_PIN HIGH,
        AnalogSet CoilB 0,
        AnalogSet CoilA 0, GpioWrite COIL_A_DIR_1_PIN LOW, GpioWrite COIL_A_DIR_2_PIN LOW,
        AnalogSet CoilA 0,
        AnalogSet CoilB 0, GpioWrite COIL_B_DIR_1_PIN LOW, GpioWrite COIL_B_DIR_2_PIN LOW,
        AnalogSet CoilB 0]"
proof -
  have d: "state example_motor = DISABLED" by (simp add: example_motor_def)
  have i: "IDLE_MODE example_config = COAST" by (simp add: example_config_def)
  note f = setState_enable_falls_through [OF d, of example_config example_encoder]
  have a: "currentAngle (setState example_config example_encoder ENABLED False example_motor) = 45"
    using f(3) by (simp add: example_getAngle startup_zero)
  have l1: "pwmDuty (caseEnabled example_config example_encoder example_motor) CoilA = 154"
    by (simp add: example_caseEnabled setCoilB_other setCoilA_duty example_currentToPWM_1000)
  have l2: "previousCoilStateA (caseEnabled example_config example_encoder example_motor) = FORWARD"
    by (simp add: example_caseEnabled setCoilB_other setCoilA_cache)
  have lg: "hwLog (caseEnabled example_config example_encoder example_motor) =
     [AnalogSet CoilA 0, GpioWrite COIL_A_DIR_1_PIN HIGH, GpioWrite COIL_A_DIR_2_PIN LOW,
      AnalogSet CoilA 154,
      AnalogSet CoilB 0, GpioWrite COIL_B_DIR_1_PIN HIGH, GpioWrite COIL_B_DIR_2_PIN HIGH,
      AnalogSet CoilB 0]"
    using example_locked by (simp add: caseEnabled_def Let_def example_getAngle startup_zero)
  have pa: "previousCoilStateA (caseEnabled example_config example_encoder example_motor) \<noteq> COAST"
    using l2 by simp
  have pb: "previousCoilStateB (setCoilA example_config COAST 0
      (caseEnabled example_config example_encoder example_motor)) \<noteq> COAST"
    by (simp add: example_caseEnabled setCoilA_def setCoilB_cache analogSet_def GPIO_WRITE_def Let_def)
  have h: "hwLog (setState example_config example_encoder ENABLED False example_motor) =
       [AnalogSet CoilA 0, GpioWrite COIL_A_DIR_1_PIN HIGH, GpioWrite COIL_A_DIR_2_PIN LOW,
        AnalogSet CoilA 154,
        AnalogSet CoilB 0, GpioWrite COIL_B_DIR_1_PIN HIGH, GpioWrite COIL_B_DIR_2_PIN HIGH,
        AnalogSet CoilB 0,
        AnalogSet CoilA 0, GpioWrite COIL_A_DIR_1_PIN LOW, GpioWrite COIL_A_DIR_2_PIN LOW,
        AnalogSet CoilA 0,
        AnalogSet CoilB 0, GpioWrite COIL_B_DIR_1_PIN LOW, GpioWrite COIL_B_DIR_2_PIN LOW,
        AnalogSet CoilB 0]"
    using pa pb
    by (simp add: f(1) caseDefault_def i setCoilB_log setCoilA_log lg currentToPWM_zero)
  show ?thesis
    using f(2) a l1 l2 f(4) f(5) f(6) f(7) h by (simp add: i)
qed

end
